theory Spec2Isabelle
  imports Main
begin

section \<open>The GKE cluster reconciler of \<^verbatim>\<open>compute/gke.go\<close>\<close>

text \<open>
  The reconciler mutates one \<^verbatim>\<open>GKECluster\<close> object through a pointer and talks to three
  collaborators: the Kubernetes API client (\<^verbatim>\<open>r.Get\<close>, \<^verbatim>\<open>r.Update\<close>), the secret
  helper \<^verbatim>\<open>util.ApplySecret\<close> and the GKE client returned by \<^verbatim>\<open>r.connect\<close>. Every
  function below returns the \<^verbatim>\<open>(reconcile.Result, error)\<close> pair of the source together
  with the object as the function left it and the list of collaborator calls it made, in
  order.
\<close>

subsection \<open>Errors\<close>

text \<open>
  Modelled from the spec: the predicates \<^verbatim>\<open>gcp.IsAlreadyExists\<close> and
  \<^verbatim>\<open>gcp.IsBadRequest\<close> of the package \<^verbatim>\<open>pkg/clients/gcp\<close> are not among the sources.
  The errors of the external operations are classified as
  \<open>NotFound | AlreadyExists | BadRequest | Other\<close>; a Go \<^verbatim>\<open>error\<close> is such a kind together
  with its message (\<^verbatim>\<open>err.Error()\<close>). \<^verbatim>\<open>errors.IsNotFound\<close> is the predicate of the
  Kubernetes library on the errors of \<^verbatim>\<open>r.Get\<close>.
\<close>

datatype error_kind = NotFound | AlreadyExists | BadRequest | Other

datatype error = Error error_kind string

fun kind :: "error \<Rightarrow> error_kind" where
  "kind (Error k m) = k"

fun Error_msg :: "error \<Rightarrow> string" where
  "Error_msg (Error k m) = m"

definition IsNotFound :: "error \<Rightarrow> bool" where
  "IsNotFound e = (kind e = NotFound)"

definition IsAlreadyExists :: "error \<Rightarrow> bool" where
  \<comment> \<open>Modelled from the spec: \<^verbatim>\<open>gcp.IsAlreadyExists\<close>, the error is of the kind AlreadyExists.\<close>
  "IsAlreadyExists e = (kind e = AlreadyExists)"

definition IsBadRequest :: "error \<Rightarrow> bool" where
  \<comment> \<open>Modelled from the spec: \<^verbatim>\<open>gcp.IsBadRequest\<close>, the error is of the kind BadRequest.\<close>
  "IsBadRequest e = (kind e = BadRequest)"

subsection \<open>Conditions\<close>

text \<open>
  Modelled from the spec: the type \<^verbatim>\<open>ConditionedStatus\<close> of \<^verbatim>\<open>pkg/apis/core/v1alpha1\<close>
  and its methods \<^verbatim>\<open>UnsetAllConditions\<close>, \<^verbatim>\<open>SetFailed\<close>, \<^verbatim>\<open>SetCreating\<close> and
  \<^verbatim>\<open>SetReady\<close> are not among the sources. The conditions of a record are a set of condition
  records (type, status, reason, message) in which a new condition replaces any prior
  condition of the same type: a map from the condition type to the rest of the record.
  Setting a condition stores it with status true; unsetting turns the status of every
  stored condition to false. A condition category is present (active) when a condition of
  that type is stored with status true. The source calls \<^verbatim>\<open>UnsetAllConditions\<close> and the
  setter as two separate statements, so the setter alone touches its own type only.
\<close>

datatype condition_type = Creating | Ready | Failed

record condition =
  CStatus :: bool
  Reason :: string
  Message :: string

type_synonym conditioned_status = "condition_type \<rightharpoonup> condition"

definition SetCondition :: "condition_type \<Rightarrow> condition \<Rightarrow> conditioned_status \<Rightarrow> conditioned_status" where
  \<comment> \<open>Modelled from the spec: a condition replaces any prior condition of the same type.\<close>
  "SetCondition t c cs = cs(t \<mapsto> c)"

definition UnsetAllConditions :: "conditioned_status \<Rightarrow> conditioned_status" where
  \<comment> \<open>Modelled from the spec: \<^verbatim>\<open>UnsetAllConditions\<close>, every stored condition gets the status false.\<close>
  "UnsetAllConditions cs = (\<lambda>t. map_option (\<lambda>c. c\<lparr>CStatus := False\<rparr>) (cs t))"

definition SetFailed :: "string \<Rightarrow> string \<Rightarrow> conditioned_status \<Rightarrow> conditioned_status" where
  \<comment> \<open>Modelled from the spec: \<^verbatim>\<open>SetFailed\<close>, Failed with status true, the reason and the message.\<close>
  "SetFailed reason msg cs = SetCondition Failed \<lparr>CStatus = True, Reason = reason, Message = msg\<rparr> cs"

definition SetCreating :: "conditioned_status \<Rightarrow> conditioned_status" where
  \<comment> \<open>Modelled from the spec: \<^verbatim>\<open>SetCreating\<close>, Creating with status true.\<close>
  "SetCreating cs = SetCondition Creating \<lparr>CStatus = True, Reason = [], Message = []\<rparr> cs"

definition SetReady :: "conditioned_status \<Rightarrow> conditioned_status" where
  \<comment> \<open>Modelled from the spec: \<^verbatim>\<open>SetReady\<close>, Ready with status true.\<close>
  "SetReady cs = SetCondition Ready \<lparr>CStatus = True, Reason = [], Message = []\<rparr> cs"

text \<open>
  The two predicates of the properties: a condition category is present, and at most one
  of the three categories is present.
\<close>

definition present :: "condition_type \<Rightarrow> conditioned_status \<Rightarrow> bool" where
  "present t cs = (case cs t of None \<Rightarrow> False | Some c \<Rightarrow> CStatus c)"

definition at_most_one :: "conditioned_status \<Rightarrow> bool" where
  "at_most_one cs =
     (\<not> (present Creating cs \<and> present Ready cs) \<and>
      \<not> (present Creating cs \<and> present Failed cs) \<and>
      \<not> (present Ready cs \<and> present Failed cs))"

subsection \<open>The managed resource record\<close>

text \<open>
  Modelled from the spec: the reclaim policy constants of \<^verbatim>\<open>pkg/apis/core/v1alpha1\<close>
  are not among the sources; the policy is one of Delete and Retain. The source compares
  the policy with \<^verbatim>\<open>ReclaimDelete\<close> only, so every other value behaves as Retain does.
\<close>

datatype reclaim_policy = ReclaimDelete | ReclaimRetain

record object_meta =
  Namespace :: string
  Name :: string
  UID :: string
  DeletionTimestamp :: "nat option"
  Finalizers :: "string list"

record gke_cluster_spec =
  Zone :: string
  ProviderRef :: string
  ReclaimPolicy :: reclaim_policy

record gke_cluster_status =
  Conditions :: conditioned_status
  ClusterName :: string

record gke_cluster =
  ObjectMeta :: object_meta
  Spec :: gke_cluster_spec
  Status :: gke_cluster_status

text \<open>
  Modelled from the spec: \<^verbatim>\<open>util.HasFinalizer\<close>, \<^verbatim>\<open>util.AddFinalizer\<close> and
  \<^verbatim>\<open>util.RemoveFinalizer\<close> of \<^verbatim>\<open>pkg/util\<close> are not among the sources. The finalizers
  are kept as the ordered sequence of the object metadata with set semantics: no
  duplicates are added, and removing an absent token changes nothing.
\<close>

definition HasFinalizer :: "object_meta \<Rightarrow> string \<Rightarrow> bool" where
  \<comment> \<open>Modelled from the spec: \<^verbatim>\<open>util.HasFinalizer\<close>, the token is in the finalizer set.\<close>
  "HasFinalizer m f = (f \<in> set (Finalizers m))"

definition AddFinalizer :: "object_meta \<Rightarrow> string \<Rightarrow> object_meta" where
  \<comment> \<open>Modelled from the spec: \<^verbatim>\<open>util.AddFinalizer\<close>, adds the token, without duplicates.\<close>
  "AddFinalizer m f = (if f \<in> set (Finalizers m) then m else m\<lparr>Finalizers := Finalizers m @ [f]\<rparr>)"

definition RemoveFinalizer :: "object_meta \<Rightarrow> string \<Rightarrow> object_meta" where
  \<comment> \<open>Modelled from the spec: \<^verbatim>\<open>util.RemoveFinalizer\<close>, removes the token; a no-op when absent.\<close>
  "RemoveFinalizer m f = m\<lparr>Finalizers := removeAll f (Finalizers m)\<rparr>"

subsection \<open>Constants of the controller\<close>

definition controllerName :: string where
  "controllerName = ''gke.compute.gcp.conductor.io''"

definition finalizer :: string where
  "finalizer = ''finalizer.'' @ controllerName"

definition clusterNamePrefix :: string where
  "clusterNamePrefix = ''gke-''"

definition errorClusterClient :: string where
  "errorClusterClient = ''Failed to create cluster client''"

definition errorCreatingCluster :: string where
  "errorCreatingCluster = ''Failed to create new cluster''"

definition errorUpdatingCluster :: string where
  "errorUpdatingCluster = ''Failed to update cluster''"

definition errorDeletingCluster :: string where
  "errorDeletingCluster = ''Failed to delete cluster''"

definition errorClusterConnectionSecret :: string where
  "errorClusterConnectionSecret = ''Failed to create/update cluster connection secret''"

text \<open>
  Modelled from the spec: the constant \<^verbatim>\<open>ClusterStateRunning\<close> of
  \<^verbatim>\<open>pkg/apis/gcp/compute/v1alpha1\<close> is not among the sources; the usable state of the
  external vocabulary is \<^verbatim>\<open>RUNNING\<close>.
\<close>

definition ClusterStateRunning :: string where
  \<comment> \<open>Modelled from the spec: the constant is not among the sources.\<close>
  "ClusterStateRunning = ''RUNNING''"

text \<open>\<^verbatim>\<open>reconcile.Result\<close>: a requeue flag and a delay, zero when no delay is asked for.\<close>

record result =
  Requeue :: bool
  RequeueAfter :: nat

definition result :: result where
  "result = \<lparr>Requeue = False, RequeueAfter = 0\<rparr>"

definition resultRequeue :: result where
  "resultRequeue = \<lparr>Requeue = True, RequeueAfter = 0\<rparr>"

subsection \<open>The external cluster and the connection secret\<close>

record master_auth =
  Username :: string
  Password :: string
  ClusterCaCertificate :: string
  ClientCertificate :: string
  ClientKey :: string

record cluster =
  ClusterStatus :: string
  Endpoint :: string
  MasterAuth :: master_auth

record secret =
  SecretNamespace :: string
  SecretName :: string
  Data :: "string \<rightharpoonup> string"

text \<open>
  Modelled from the spec: the six key constants \<^verbatim>\<open>ResourceCredentialsSecret...Key\<close> of
  \<^verbatim>\<open>pkg/apis/core/v1alpha1\<close> are not among the sources; the persisted schema has the keys
  \<^verbatim>\<open>endpoint\<close>, \<^verbatim>\<open>username\<close>, \<^verbatim>\<open>password\<close>, \<^verbatim>\<open>ca-certificate\<close>,
  \<^verbatim>\<open>client-certificate\<close> and \<^verbatim>\<open>client-key\<close>.
\<close>

definition ResourceCredentialsSecretEndpointKey :: string where
  \<comment> \<open>Modelled from the spec: the constant is not among the sources.\<close>
  "ResourceCredentialsSecretEndpointKey = ''endpoint''"

definition ResourceCredentialsSecretUserKey :: string where
  \<comment> \<open>Modelled from the spec: the constant is not among the sources.\<close>
  "ResourceCredentialsSecretUserKey = ''username''"

definition ResourceCredentialsSecretPasswordKey :: string where
  \<comment> \<open>Modelled from the spec: the constant is not among the sources.\<close>
  "ResourceCredentialsSecretPasswordKey = ''password''"

definition ResourceCredentialsSecretCAKey :: string where
  \<comment> \<open>Modelled from the spec: the constant is not among the sources.\<close>
  "ResourceCredentialsSecretCAKey = ''ca-certificate''"

definition ResourceCredentialsSecretClientCertKey :: string where
  \<comment> \<open>Modelled from the spec: the constant is not among the sources.\<close>
  "ResourceCredentialsSecretClientCertKey = ''client-certificate''"

definition ResourceCredentialsSecretClientKeyKey :: string where
  \<comment> \<open>Modelled from the spec: the constant is not among the sources.\<close>
  "ResourceCredentialsSecretClientKeyKey = ''client-key''"

text \<open>
  Modelled from the spec: the method \<^verbatim>\<open>ConnectionSecret\<close> of the \<^verbatim>\<open>GKECluster\<close> type is
  not among the sources; the secret is keyed to the owning record (its namespace and
  name) and starts without data.
\<close>

definition ConnectionSecret :: "gke_cluster \<Rightarrow> secret" where
  \<comment> \<open>Modelled from the spec: the method is not among the sources.\<close>
  "ConnectionSecret instance =
     \<lparr>SecretNamespace = Namespace (ObjectMeta instance),
      SecretName = Name (ObjectMeta instance),
      Data = Map.empty\<rparr>"

subsection \<open>Collaborators\<close>

text \<open>
  The interface \<^verbatim>\<open>gke.Client\<close>: one function per method. \<^verbatim>\<open>CreateCluster\<close> returns
  a cluster handle too, which the reconciler discards.
\<close>

record gke_client =
  CreateCluster :: "string \<Rightarrow> gke_cluster_spec \<Rightarrow> error option"
  GetCluster :: "string \<Rightarrow> string \<Rightarrow> error + cluster"
  DeleteCluster :: "string \<Rightarrow> string \<Rightarrow> error option"

text \<open>
  The \<^verbatim>\<open>Reconciler\<close> struct: the embedded Kubernetes client (\<^verbatim>\<open>Get\<close> by namespaced
  name, \<^verbatim>\<open>Update\<close>), \<^verbatim>\<open>util.ApplySecret\<close> on its \<^verbatim>\<open>kubeclient\<close>, and the function
  field \<^verbatim>\<open>connect\<close>. The fields \<^verbatim>\<open>create\<close>, \<^verbatim>\<open>sync\<close> and \<^verbatim>\<open>delete\<close> are set by
  \<^verbatim>\<open>newReconciler\<close> to the methods modelled below, which \<open>Reconcile\<close> calls directly.
\<close>

record reconciler =
  kube_Get :: "string \<times> string \<Rightarrow> error + gke_cluster"
  kube_Update :: "gke_cluster \<Rightarrow> error option"
  ApplySecret :: "secret \<Rightarrow> error option"
  connect :: "gke_cluster \<Rightarrow> error + gke_client"

text \<open>
  The calls to the collaborators that change or read something outside the object: the
  three methods of the GKE client with their arguments, the application of a secret, and
  the update of the object (with the object as it is handed over).
\<close>

datatype event =
    CreateClusterCall string gke_cluster_spec
  | GetClusterCall string string
  | DeleteClusterCall string string
  | ApplySecretCall secret
  | UpdateCall gke_cluster

text \<open>
  What a method leaves behind: the returned result and error, the object behind the
  pointer, and the calls made. \<open>after\<close> puts earlier calls in front, and \<open>returned\<close>
  is the outcome of \<open>Reconcile\<close> when an object was read. \<open>with_conditions\<close> applies a
  method of the conditioned status to \<^verbatim>\<open>instance.Status\<close>.
\<close>

record 'a outcome =
  res :: result
  err :: "error option"
  obj :: 'a
  trace :: "event list"

definition after :: "event list \<Rightarrow> 'a outcome \<Rightarrow> 'a outcome" where
  "after es out = out\<lparr>trace := es @ trace out\<rparr>"

definition returned :: "gke_cluster outcome \<Rightarrow> gke_cluster option outcome" where
  "returned out = \<lparr>res = res out, err = err out, obj = Some (obj out), trace = trace out\<rparr>"

definition with_conditions :: "(conditioned_status \<Rightarrow> conditioned_status) \<Rightarrow> gke_cluster \<Rightarrow> gke_cluster" where
  "with_conditions f instance =
     instance\<lparr>Status := (Status instance)\<lparr>Conditions := f (Conditions (Status instance))\<rparr>\<rparr>"

subsection \<open>The methods of the reconciler\<close>

text \<open>\<^verbatim>\<open>fail\<close>: unset all conditions, set Failed, update, ask for a requeue.\<close>

definition Reconciler_fail :: "reconciler \<Rightarrow> gke_cluster \<Rightarrow> string \<Rightarrow> string \<Rightarrow> gke_cluster outcome" where
  "Reconciler_fail r instance reason msg =
     (let i1 = with_conditions UnsetAllConditions instance;
          i2 = with_conditions (SetFailed reason msg) i1
      in \<lparr>res = resultRequeue, err = kube_Update r i2, obj = i2, trace = [UpdateCall i2]\<rparr>)"

text \<open>\<^verbatim>\<open>connectionSecret\<close>: the six entries are assigned in the order of the source.\<close>

definition connectionSecret :: "gke_cluster \<Rightarrow> cluster \<Rightarrow> secret" where
  "connectionSecret instance c =
     (let secret = ConnectionSecret instance;
          data = Map.empty;
          data = data(ResourceCredentialsSecretEndpointKey \<mapsto> Endpoint c);
          data = data(ResourceCredentialsSecretUserKey \<mapsto> Username (MasterAuth c));
          data = data(ResourceCredentialsSecretPasswordKey \<mapsto> Password (MasterAuth c));
          data = data(ResourceCredentialsSecretCAKey \<mapsto> ClusterCaCertificate (MasterAuth c));
          data = data(ResourceCredentialsSecretClientCertKey \<mapsto> ClientCertificate (MasterAuth c));
          data = data(ResourceCredentialsSecretClientKeyKey \<mapsto> ClientKey (MasterAuth c))
      in secret\<lparr>Data := data\<rparr>)"

text \<open>
  \<^verbatim>\<open>_create\<close>. The error test of the source is
  \<^verbatim>\<open>err != nil && !gcp.IsAlreadyExists(err)\<close>; inside it a bad request calls
  \<^verbatim>\<open>SetFailed\<close> only, updates and returns \<^verbatim>\<open>result\<close>. The statements after the
  test (\<open>created\<close>) run when there is no error and when the error is already-exists.
\<close>

definition Reconciler_create :: "reconciler \<Rightarrow> gke_cluster \<Rightarrow> gke_client \<Rightarrow> gke_cluster outcome" where
  "Reconciler_create r instance client =
     (let clusterName = clusterNamePrefix @ UID (ObjectMeta instance);
          call = CreateClusterCall clusterName (Spec instance);
          created =
            (let i1 = with_conditions UnsetAllConditions instance;
                 i2 = with_conditions SetCreating i1;
                 i3 = i2\<lparr>Status := (Status i2)\<lparr>ClusterName := clusterName\<rparr>\<rparr>
             in \<lparr>res = resultRequeue, err = kube_Update r i3, obj = i3, trace = [call, UpdateCall i3]\<rparr>)
      in case CreateCluster client clusterName (Spec instance) of
           None \<Rightarrow> created
         | Some e \<Rightarrow>
             if \<not> IsAlreadyExists e then
               (if IsBadRequest e then
                  (let i1 = with_conditions (SetFailed errorCreatingCluster (Error_msg e)) instance
                   in \<lparr>res = result, err = kube_Update r i1, obj = i1, trace = [call, UpdateCall i1]\<rparr>)
                else after [call] (Reconciler_fail r instance errorCreatingCluster (Error_msg e)))
             else created)"

text \<open>\<^verbatim>\<open>_sync\<close>.\<close>

definition Reconciler_sync :: "reconciler \<Rightarrow> gke_cluster \<Rightarrow> gke_client \<Rightarrow> gke_cluster outcome" where
  "Reconciler_sync r instance client =
     (let call = GetClusterCall (Zone (Spec instance)) (ClusterName (Status instance))
      in case GetCluster client (Zone (Spec instance)) (ClusterName (Status instance)) of
           Inl e \<Rightarrow> after [call] (Reconciler_fail r instance errorUpdatingCluster (Error_msg e))
         | Inr c \<Rightarrow>
             if ClusterStatus c \<noteq> ClusterStateRunning then
               \<lparr>res = resultRequeue, err = None, obj = instance, trace = [call]\<rparr>
             else
               (let s = connectionSecret instance c
                in case ApplySecret r s of
                     Some e \<Rightarrow>
                       after [call, ApplySecretCall s]
                         (Reconciler_fail r instance errorClusterConnectionSecret (Error_msg e))
                   | None \<Rightarrow>
                       (let i1 = with_conditions UnsetAllConditions instance;
                            i2 = with_conditions SetReady i1
                        in \<lparr>res = result, err = kube_Update r i2, obj = i2,
                            trace = [call, ApplySecretCall s, UpdateCall i2]\<rparr>)))"

text \<open>
  \<^verbatim>\<open>_delete\<close>. The statements after the policy test (\<open>removed\<close>) run when the
  policy is not Delete and when the delete call returned no error.
\<close>

definition Reconciler_delete :: "reconciler \<Rightarrow> gke_cluster \<Rightarrow> gke_client \<Rightarrow> gke_cluster outcome" where
  "Reconciler_delete r instance client =
     (let call = DeleteClusterCall (Zone (Spec instance)) (ClusterName (Status instance));
          removed =
            (let i1 = instance\<lparr>ObjectMeta := RemoveFinalizer (ObjectMeta instance) finalizer\<rparr>;
                 i2 = with_conditions UnsetAllConditions i1
             in \<lparr>res = result, err = kube_Update r i2, obj = i2, trace = [UpdateCall i2]\<rparr>)
      in if ReclaimPolicy (Spec instance) = ReclaimDelete then
           (case DeleteCluster client (Zone (Spec instance)) (ClusterName (Status instance)) of
              Some e \<Rightarrow> after [call] (Reconciler_fail r instance errorDeletingCluster (Error_msg e))
            | None \<Rightarrow> after [call] removed)
         else removed)"

text \<open>The last two statements of \<^verbatim>\<open>Reconcile\<close>: create when the cluster name is empty, else sync.\<close>

definition create_or_sync :: "reconciler \<Rightarrow> gke_cluster \<Rightarrow> gke_client \<Rightarrow> gke_cluster outcome" where
  "create_or_sync r instance client =
     (if ClusterName (Status instance) = [] then Reconciler_create r instance client
      else Reconciler_sync r instance client)"

text \<open>
  \<^verbatim>\<open>Reconcile\<close>. When the object cannot be read there is no object to report; a read
  error other than not-found is returned to the caller.
\<close>

definition Reconcile :: "reconciler \<Rightarrow> string \<times> string \<Rightarrow> gke_cluster option outcome" where
  "Reconcile r request =
     (case kube_Get r request of
        Inl e \<Rightarrow>
          if IsNotFound e then \<lparr>res = result, err = None, obj = None, trace = []\<rparr>
          else \<lparr>res = result, err = Some e, obj = None, trace = []\<rparr>
      | Inr instance \<Rightarrow>
          (case connect r instance of
             Inl e \<Rightarrow> returned (Reconciler_fail r instance errorClusterClient (Error_msg e))
           | Inr client \<Rightarrow>
               if DeletionTimestamp (ObjectMeta instance) \<noteq> None then
                 returned (Reconciler_delete r instance client)
               else if \<not> HasFinalizer (ObjectMeta instance) finalizer then
                 (let i1 = instance\<lparr>ObjectMeta := AddFinalizer (ObjectMeta instance) finalizer\<rparr>
                  in case kube_Update r i1 of
                       Some e \<Rightarrow> \<lparr>res = resultRequeue, err = Some e, obj = Some i1, trace = [UpdateCall i1]\<rparr>
                     | None \<Rightarrow> returned (after [UpdateCall i1] (create_or_sync r i1 client)))
               else returned (create_or_sync r instance client)))"

subsection \<open>Reading the list of collaborator calls\<close>

fun is_create :: "event \<Rightarrow> bool" where
  "is_create (CreateClusterCall n s) = True"
| "is_create _ = False"

fun is_delete :: "event \<Rightarrow> bool" where
  "is_delete (DeleteClusterCall z n) = True"
| "is_delete _ = False"

subsection \<open>Example objects and collaborators\<close>

text \<open>
  A record in the namespace \<^verbatim>\<open>default\<close> with the name \<^verbatim>\<open>demo\<close>, a GKE client and a
  reconciler whose collaborators answer every call with the same given response.
\<close>

definition example_cluster ::
  "nat option \<Rightarrow> string list \<Rightarrow> reclaim_policy \<Rightarrow> conditioned_status \<Rightarrow> string \<Rightarrow> gke_cluster" where
  "example_cluster d fs p cs n =
     \<lparr>ObjectMeta = \<lparr>Namespace = ''default'', Name = ''demo'', UID = ''u1'',
                    DeletionTimestamp = d, Finalizers = fs\<rparr>,
      Spec = \<lparr>Zone = ''us-west1-a'', ProviderRef = ''gcp'', ReclaimPolicy = p\<rparr>,
      Status = \<lparr>Conditions = cs, ClusterName = n\<rparr>\<rparr>"

definition example_client :: "error option \<Rightarrow> error + cluster \<Rightarrow> error option \<Rightarrow> gke_client" where
  "example_client c g d =
     \<lparr>CreateCluster = (\<lambda>n s. c), GetCluster = (\<lambda>z n. g), DeleteCluster = (\<lambda>z n. d)\<rparr>"

definition example_reconciler ::
  "gke_cluster \<Rightarrow> error option \<Rightarrow> error option \<Rightarrow> error + gke_client \<Rightarrow> reconciler" where
  "example_reconciler i u s c =
     \<lparr>kube_Get = (\<lambda>rq. if rq = (''default'', ''demo'') then Inr i
                         else Inl (Error NotFound ''not found'')),
      kube_Update = (\<lambda>x. u), ApplySecret = (\<lambda>x. s), connect = (\<lambda>x. c)\<rparr>"

definition example_cloud :: "string \<Rightarrow> cluster" where
  "example_cloud st =
     \<lparr>ClusterStatus = st, Endpoint = ''10.0.0.1'',
      MasterAuth = \<lparr>Username = ''admin'', Password = ''pw'', ClusterCaCertificate = ''ca'',
                    ClientCertificate = ''cert'', ClientKey = ''key''\<rparr>\<rparr>"

text \<open>
  A record that is ready and written without a cluster name, with a client whose create
  call is refused as a bad request.
\<close>

definition unnamed_ready_record :: gke_cluster where
  "unnamed_ready_record = example_cluster None [finalizer] ReclaimDelete (SetReady Map.empty) []"

definition bad_request_client :: gke_client where
  "bad_request_client =
     example_client (Some (Error BadRequest ''invalid machine type''))
       (Inl (Error NotFound ''no such cluster'')) None"

definition bad_request_reconciler :: reconciler where
  "bad_request_reconciler = example_reconciler unnamed_ready_record None None (Inr bad_request_client)"

text \<open>
  A ready record whose deletion is requested with the policy Delete, after the external
  cluster has gone: the delete call answers not-found.
\<close>

definition gone_record :: gke_cluster where
  "gone_record = example_cluster (Some 7) [finalizer] ReclaimDelete (SetReady Map.empty) ''gke-u1''"

definition gone_client :: gke_client where
  "gone_client =
     example_client None (Inl (Error NotFound ''no such cluster''))
       (Some (Error NotFound ''no such cluster''))"

definition gone_reconciler :: reconciler where
  "gone_reconciler = example_reconciler gone_record None None (Inr gone_client)"

text \<open>A record in creation whose external cluster is still being provisioned.\<close>

definition provisioning_record :: gke_cluster where
  "provisioning_record =
     example_cluster None [finalizer] ReclaimDelete (SetCreating Map.empty) ''gke-u1''"

definition provisioning_client :: gke_client where
  "provisioning_client = example_client None (Inr (example_cloud ''PROVISIONING'')) None"

definition provisioning_reconciler :: reconciler where
  "provisioning_reconciler =
     example_reconciler provisioning_record None None (Inr provisioning_client)"

text \<open>
  A record whose creation failed (no cluster name, Failed set) and whose deletion is then
  requested with the policy Delete.
\<close>

definition uncreated_record :: gke_cluster where
  "uncreated_record =
     example_cluster (Some 7) [finalizer] ReclaimDelete
       (SetFailed errorCreatingCluster ''quota exceeded'' Map.empty) []"

definition uncreated_client :: gke_client where
  "uncreated_client =
     example_client (Some (Error Other ''quota exceeded''))
       (Inl (Error NotFound ''no such cluster'')) (Some (Error BadRequest ''name required''))"

definition uncreated_reconciler :: reconciler where
  "uncreated_reconciler = example_reconciler uncreated_record None None (Inr uncreated_client)"

text \<open>A new record, without finalizer and status, with an API server that refuses the update.\<close>

definition new_record :: gke_cluster where
  "new_record = example_cluster None [] ReclaimDelete Map.empty []"

definition conflict_reconciler :: reconciler where
  "conflict_reconciler =
     example_reconciler new_record (Some (Error Other ''conflict'')) None (Inr provisioning_client)"

subsection \<open>Predicates of the properties\<close>

text \<open>
  An outcome records the failure \<open>e\<close> of a step when its object has Failed present with the
  reason of the step and the message of the error, the object is the last thing handed to
  \<^verbatim>\<open>Update\<close>, and the returned error is the answer of that update.
\<close>

definition failed_with :: "reconciler \<Rightarrow> gke_cluster option outcome \<Rightarrow> string \<Rightarrow> error \<Rightarrow> bool" where
  "failed_with r out reason e =
     (case obj out of
        None \<Rightarrow> False
      | Some i \<Rightarrow>
          present Failed (Conditions (Status i))
          \<and> Conditions (Status i) Failed = Some \<lparr>CStatus = True, Reason = reason, Message = Error_msg e\<rparr>
          \<and> trace out \<noteq> []
          \<and> last (trace out) = UpdateCall i
          \<and> err out = kube_Update r i)"

text \<open>
  The states the reconciler itself writes: at most one condition present, and neither
  Creating nor Ready present while the cluster name is empty.
\<close>

definition settled :: "gke_cluster \<Rightarrow> bool" where
  "settled i =
     (at_most_one (Conditions (Status i)) \<and>
      (ClusterName (Status i) = [] \<longrightarrow>
         \<not> present Creating (Conditions (Status i)) \<and> \<not> present Ready (Conditions (Status i))))"

section \<open>Properties\<close>

lemmas example_defs =
  example_cluster_def example_client_def example_reconciler_def example_cloud_def
  unnamed_ready_record_def bad_request_client_def bad_request_reconciler_def
  gone_record_def gone_client_def gone_reconciler_def
  provisioning_record_def provisioning_client_def provisioning_reconciler_def
  uncreated_record_def uncreated_client_def uncreated_reconciler_def
  new_record_def conflict_reconciler_def

subsection \<open>Conditions, finalizers and outcomes\<close>

lemma present_UnsetAllConditions [simp]: "present t (UnsetAllConditions cs) = False"
  by (simp add: present_def UnsetAllConditions_def split: option.splits)

lemma present_SetFailed [simp]: "present t (SetFailed rs m cs) = (t = Failed \<or> present t cs)"
  by (simp add: present_def SetFailed_def SetCondition_def)

lemma present_SetCreating [simp]: "present t (SetCreating cs) = (t = Creating \<or> present t cs)"
  by (simp add: present_def SetCreating_def SetCondition_def)

lemma present_SetReady [simp]: "present t (SetReady cs) = (t = Ready \<or> present t cs)"
  by (simp add: present_def SetReady_def SetCondition_def)

lemma SetFailed_Failed [simp]:
  "SetFailed rs m cs Failed = Some \<lparr>CStatus = True, Reason = rs, Message = m\<rparr>"
  by (simp add: SetFailed_def SetCondition_def)

lemma with_conditions_simps [simp]:
  "ObjectMeta (with_conditions f i) = ObjectMeta i"
  "Spec (with_conditions f i) = Spec i"
  "ClusterName (Status (with_conditions f i)) = ClusterName (Status i)"
  "Conditions (Status (with_conditions f i)) = f (Conditions (Status i))"
  by (simp_all add: with_conditions_def)

lemma AddFinalizer_simps [simp]:
  "Namespace (AddFinalizer m f) = Namespace m"
  "Name (AddFinalizer m f) = Name m"
  "UID (AddFinalizer m f) = UID m"
  "DeletionTimestamp (AddFinalizer m f) = DeletionTimestamp m"
  "HasFinalizer (AddFinalizer m f) f"
  "set (Finalizers (AddFinalizer m f)) = insert f (set (Finalizers m))"
  by (auto simp add: AddFinalizer_def HasFinalizer_def)

lemma Reconciler_fail_simps [simp]:
  "res (Reconciler_fail r i rs m) = resultRequeue"
  "err (Reconciler_fail r i rs m) = kube_Update r (obj (Reconciler_fail r i rs m))"
  "trace (Reconciler_fail r i rs m) = [UpdateCall (obj (Reconciler_fail r i rs m))]"
  "ObjectMeta (obj (Reconciler_fail r i rs m)) = ObjectMeta i"
  "Spec (obj (Reconciler_fail r i rs m)) = Spec i"
  "ClusterName (Status (obj (Reconciler_fail r i rs m))) = ClusterName (Status i)"
  "present t (Conditions (Status (obj (Reconciler_fail r i rs m)))) = (t = Failed)"
  "Conditions (Status (obj (Reconciler_fail r i rs m))) Failed
     = Some \<lparr>CStatus = True, Reason = rs, Message = m\<rparr>"
  by (simp_all add: Reconciler_fail_def Let_def)

lemma after_simps [simp]:
  "res (after es out) = res out"
  "err (after es out) = err out"
  "obj (after es out) = obj out"
  "trace (after es out) = es @ trace out"
  by (simp_all add: after_def)

lemma returned_simps [simp]:
  "res (returned out) = res out"
  "err (returned out) = err out"
  "obj (returned out) = Some (obj out)"
  "trace (returned out) = trace out"
  by (simp_all add: returned_def)

lemma present_empty [simp]: "present t Map.empty = False"
  by (simp add: present_def)

lemma sync_no_create [simp]: "filter is_create (trace (Reconciler_sync r i c)) = []"
  by (simp add: Reconciler_sync_def Let_def split: sum.splits option.splits)

lemma RemoveFinalizer_simps [simp]:
  "Namespace (RemoveFinalizer m f) = Namespace m"
  "Name (RemoveFinalizer m f) = Name m"
  "UID (RemoveFinalizer m f) = UID m"
  "DeletionTimestamp (RemoveFinalizer m f) = DeletionTimestamp m"
  "\<not> HasFinalizer (RemoveFinalizer m f) f"
  "set (Finalizers (RemoveFinalizer m f)) = set (Finalizers m) - {f}"
  by (auto simp add: RemoveFinalizer_def HasFinalizer_def)

lemma bad_request_not_already_exists: "IsBadRequest e \<Longrightarrow> \<not> IsAlreadyExists e"
  by (simp add: IsBadRequest_def IsAlreadyExists_def)

lemma at_most_one_create_call: "length (filter is_create (trace (Reconcile r request))) \<le> 1"
  by (simp add: Reconcile_def Let_def create_or_sync_def Reconciler_create_def Reconciler_delete_def
      split: sum.splits option.splits)

subsection \<open>The create branch\<close>



text \<open>
  C4. In the create branch (same conditions as for C3), a create call that fails with an
  error other than already-exists (which C3 covers: it is absorbed as a success) ends with
  Failed present on the object, carrying the reason of the create step and the message of the
  error; the object is the last thing handed to \<^verbatim>\<open>Update\<close> and the answer of the update is
  the returned error. The result is \<^verbatim>\<open>result\<close> (no requeue, no delay) when the error is a
  bad request, and \<^verbatim>\<open>resultRequeue\<close> for every other such error.
\<close>

theorem create_error_handling:
  assumes get: "kube_Get r request = Inr instance"
    and conn: "connect r instance = Inr client"
    and nodel: "DeletionTimestamp (ObjectMeta instance) = None"
    and fin: "HasFinalizer (ObjectMeta instance) finalizer \<or>
              kube_Update r (instance\<lparr>ObjectMeta := AddFinalizer (ObjectMeta instance) finalizer\<rparr>) = None"
    and empty: "ClusterName (Status instance) = []"
    and create: "CreateCluster client (clusterNamePrefix @ UID (ObjectMeta instance)) (Spec instance) = Some e"
    and noex: "\<not> IsAlreadyExists e"
  shows "\<exists>i'. obj (Reconcile r request) = Some i'
           \<and> present Failed (Conditions (Status i'))
           \<and> Conditions (Status i') Failed
               = Some \<lparr>CStatus = True, Reason = errorCreatingCluster, Message = Error_msg e\<rparr>
           \<and> err (Reconcile r request) = kube_Update r i'
           \<and> last (trace (Reconcile r request)) = UpdateCall i'
           \<and> res (Reconcile r request) = (if IsBadRequest e then result else resultRequeue)
           \<and> Requeue (res (Reconcile r request)) = (\<not> IsBadRequest e)
           \<and> RequeueAfter (res (Reconcile r request)) = 0"
proof (cases "HasFinalizer (ObjectMeta instance) finalizer")
  case True
  with assms show ?thesis
    by (simp add: Reconcile_def create_or_sync_def Reconciler_create_def Let_def
        result_def resultRequeue_def)
next
  case False
  with assms show ?thesis
    by (simp add: Reconcile_def create_or_sync_def Reconciler_create_def Let_def
        result_def resultRequeue_def)
qed

text \<open>
  The statement at a bad request (no requeue) and at another error (requeue), both on a new
  record whose finalizer is added and persisted first.
\<close>

theorem create_error_handling_witness:
  "(\<exists>i'. obj (Reconcile (example_reconciler new_record None None (Inr bad_request_client))
                 (''default'', ''demo'')) = Some i'
       \<and> present Failed (Conditions (Status i'))
       \<and> \<not> Requeue (res (Reconcile (example_reconciler new_record None None (Inr bad_request_client))
                 (''default'', ''demo''))))
   \<and> (\<exists>i'. obj (Reconcile (example_reconciler new_record None None (Inr uncreated_client))
                 (''default'', ''demo'')) = Some i'
       \<and> present Failed (Conditions (Status i'))
       \<and> Requeue (res (Reconcile (example_reconciler new_record None None (Inr uncreated_client))
                 (''default'', ''demo''))))"
  using create_error_handling
    [of "example_reconciler new_record None None (Inr bad_request_client)" "(''default'', ''demo'')"
        new_record bad_request_client "Error BadRequest ''invalid machine type''"]
    create_error_handling
    [of "example_reconciler new_record None None (Inr uncreated_client)" "(''default'', ''demo'')"
        new_record uncreated_client "Error Other ''quota exceeded''"]
  by (auto simp add: example_defs IsAlreadyExists_def IsBadRequest_def clusterNamePrefix_def)


text \<open>
  Every other path keeps the property: when the create call is not refused as a bad request,
  an object read with at most one condition present is left with at most one present.
\<close>

lemma create_or_sync_at_most_one:
  assumes "at_most_one (Conditions (Status i))"
    and "\<forall>e. CreateCluster client (clusterNamePrefix @ UID (ObjectMeta i)) (Spec i) = Some e
             \<longrightarrow> \<not> IsBadRequest e"
  shows "at_most_one (Conditions (Status (obj (create_or_sync r i client))))"
  using assms
  by (auto simp add: create_or_sync_def Reconciler_create_def Reconciler_sync_def Let_def
      at_most_one_def split: option.splits sum.splits)

lemma Reconciler_delete_at_most_one:
  "at_most_one (Conditions (Status (obj (Reconciler_delete r i client))))"
  by (auto simp add: Reconciler_delete_def Let_def at_most_one_def split: option.splits)

lemma Reconcile_at_most_one_unless_bad_request:
  assumes get: "kube_Get r request = Inr instance"
    and inv: "at_most_one (Conditions (Status instance))"
    and nobad: "\<forall>client e. connect r instance = Inr client
                 \<and> CreateCluster client (clusterNamePrefix @ UID (ObjectMeta instance)) (Spec instance) = Some e
                 \<longrightarrow> \<not> IsBadRequest e"
    and out: "obj (Reconcile r request) = Some i'"
  shows "at_most_one (Conditions (Status i'))"
proof (cases "connect r instance")
  case (Inl e)
  with get out show ?thesis
    by (auto simp add: Reconcile_def at_most_one_def)
next
  case (Inr client)
  have a: "at_most_one (Conditions (Status (obj (create_or_sync r instance client))))"
    using inv nobad Inr by (intro create_or_sync_at_most_one) auto
  have b: "at_most_one (Conditions (Status (obj (create_or_sync r
             (instance\<lparr>ObjectMeta := AddFinalizer (ObjectMeta instance) finalizer\<rparr>) client))))"
    using inv nobad Inr by (intro create_or_sync_at_most_one) auto
  from get out Inr a b inv show ?thesis
    by (auto simp add: Reconcile_def Let_def Reconciler_delete_at_most_one
        split: if_splits option.splits)
qed

text \<open>
  On the states the reconciler itself writes (\<open>settled\<close>) the bad-request path is harmless
  too: with an empty cluster name only Failed can be present, and \<^verbatim>\<open>SetFailed\<close> replaces
  it. So \<open>settled\<close> is kept by every invocation, and the two conditions of the theorem above
  can only meet on a record whose status was written by something else.
\<close>

lemma create_or_sync_settled:
  assumes "settled i"
  shows "settled (obj (create_or_sync r i client))"
  using assms
  by (auto simp add: settled_def create_or_sync_def Reconciler_create_def Reconciler_sync_def Let_def
      at_most_one_def clusterNamePrefix_def split: option.splits sum.splits)

lemma Reconcile_settled:
  assumes get: "kube_Get r request = Inr instance"
    and inv: "settled instance"
    and out: "obj (Reconcile r request) = Some i'"
  shows "settled i'"
proof (cases "connect r instance")
  case (Inl e)
  with get out show ?thesis
    by (auto simp add: Reconcile_def settled_def at_most_one_def)
next
  case (Inr client)
  have a: "settled (obj (create_or_sync r instance client))"
    using inv by (rule create_or_sync_settled)
  have "settled (instance\<lparr>ObjectMeta := AddFinalizer (ObjectMeta instance) finalizer\<rparr>)"
    using inv by (simp add: settled_def)
  then have b: "settled (obj (create_or_sync r
             (instance\<lparr>ObjectMeta := AddFinalizer (ObjectMeta instance) finalizer\<rparr>) client))"
    by (rule create_or_sync_settled)
  have c: "settled (obj (Reconciler_delete r instance client))"
    by (auto simp add: settled_def Reconciler_delete_def Let_def at_most_one_def split: option.splits)
  from get out Inr a b c inv show ?thesis
    by (auto simp add: Reconcile_def Let_def split: if_splits option.splits)
      (simp add: settled_def)
qed

subsection \<open>Deletion while the provider cannot be reached\<close>



subsection \<open>The sync branch\<close>

text \<open>
  C5, as the code has it. In the sync branch (object read, client connected, no deletion
  requested, finalizer there or added and persisted, cluster name not empty), when the get
  call succeeds with a state other than the running state, \<open>Reconcile\<close> leaves the status
  of the object as it was read (so Ready is not set and no condition changes), returns no
  error, makes no call after the get call (no update, no secret), and returns
  \<^verbatim>\<open>resultRequeue\<close>: the requeue flag is set and the delay \<^verbatim>\<open>RequeueAfter\<close> is zero. The
  retry is a plain requeue, not a requeue after a delay.
\<close>

theorem sync_not_running:
  assumes get: "kube_Get r request = Inr instance"
    and conn: "connect r instance = Inr client"
    and nodel: "DeletionTimestamp (ObjectMeta instance) = None"
    and fin: "HasFinalizer (ObjectMeta instance) finalizer \<or>
              kube_Update r (instance\<lparr>ObjectMeta := AddFinalizer (ObjectMeta instance) finalizer\<rparr>) = None"
    and named: "ClusterName (Status instance) \<noteq> []"
    and gets: "GetCluster client (Zone (Spec instance)) (ClusterName (Status instance)) = Inr c"
    and pending: "ClusterStatus c \<noteq> ClusterStateRunning"
  shows "\<exists>i'. obj (Reconcile r request) = Some i'
           \<and> Status i' = Status instance
           \<and> Spec i' = Spec instance
           \<and> res (Reconcile r request) = resultRequeue
           \<and> Requeue (res (Reconcile r request))
           \<and> RequeueAfter (res (Reconcile r request)) = 0
           \<and> err (Reconcile r request) = None
           \<and> last (trace (Reconcile r request))
               = GetClusterCall (Zone (Spec instance)) (ClusterName (Status instance))"
proof (cases "HasFinalizer (ObjectMeta instance) finalizer")
  case True
  with assms show ?thesis
    by (simp add: Reconcile_def create_or_sync_def Reconciler_sync_def Let_def resultRequeue_def)
next
  case False
  with assms show ?thesis
    by (simp add: Reconcile_def create_or_sync_def Reconciler_sync_def Let_def resultRequeue_def)
qed

theorem sync_not_running_witness:
  "\<exists>i'. obj (Reconcile provisioning_reconciler (''default'', ''demo'')) = Some i'
      \<and> Status i' = Status provisioning_record
      \<and> present Creating (Conditions (Status i'))
      \<and> \<not> present Ready (Conditions (Status i'))
      \<and> res (Reconcile provisioning_reconciler (''default'', ''demo'')) = resultRequeue"
  using sync_not_running
    [of provisioning_reconciler "(''default'', ''demo'')" provisioning_record provisioning_client
        "example_cloud ''PROVISIONING''"]
  by (auto simp add: example_defs HasFinalizer_def ClusterStateRunning_def)

text \<open>
  C5 as stated fails: on \<open>provisioning_record\<close>, whose external cluster answers the get call
  with the state \<^verbatim>\<open>PROVISIONING\<close>, the result has the requeue flag set and no positive
  delay.
\<close>

theorem requeue_without_delay:
  "GetCluster provisioning_client (Zone (Spec provisioning_record))
       (ClusterName (Status provisioning_record)) = Inr (example_cloud ''PROVISIONING'')
   \<and> ClusterStatus (example_cloud ''PROVISIONING'') \<noteq> ClusterStateRunning
   \<and> Requeue (res (Reconcile provisioning_reconciler (''default'', ''demo'')))
   \<and> \<not> 0 < RequeueAfter (res (Reconcile provisioning_reconciler (''default'', ''demo'')))"
  by (simp add: example_defs Reconcile_def create_or_sync_def Reconciler_sync_def Let_def
      HasFinalizer_def ClusterStateRunning_def resultRequeue_def)

lemma connectionSecret_keys:
  "dom (Data (connectionSecret i c)) =
     {''endpoint'', ''username'', ''password'', ''ca-certificate'', ''client-certificate'', ''client-key''}"
  by (auto simp add: connectionSecret_def Let_def ResourceCredentialsSecretEndpointKey_def
      ResourceCredentialsSecretUserKey_def ResourceCredentialsSecretPasswordKey_def
      ResourceCredentialsSecretCAKey_def ResourceCredentialsSecretClientCertKey_def
      ResourceCredentialsSecretClientKeyKey_def)

lemma connectionSecret_values:
  "Data (connectionSecret i c) ''endpoint'' = Some (Endpoint c)"
  "Data (connectionSecret i c) ''username'' = Some (Username (MasterAuth c))"
  "Data (connectionSecret i c) ''password'' = Some (Password (MasterAuth c))"
  "Data (connectionSecret i c) ''ca-certificate'' = Some (ClusterCaCertificate (MasterAuth c))"
  "Data (connectionSecret i c) ''client-certificate'' = Some (ClientCertificate (MasterAuth c))"
  "Data (connectionSecret i c) ''client-key'' = Some (ClientKey (MasterAuth c))"
  by (simp_all add: connectionSecret_def Let_def ResourceCredentialsSecretEndpointKey_def
      ResourceCredentialsSecretUserKey_def ResourceCredentialsSecretPasswordKey_def
      ResourceCredentialsSecretCAKey_def ResourceCredentialsSecretClientCertKey_def
      ResourceCredentialsSecretClientKeyKey_def)

lemma connectionSecret_AddFinalizer [simp]:
  "connectionSecret (i\<lparr>ObjectMeta := AddFinalizer (ObjectMeta i) f\<rparr>) c = connectionSecret i c"
  by (simp add: connectionSecret_def ConnectionSecret_def Let_def)

text \<open>
  C6. In the sync branch, when the get call succeeds with the running state, the secret
  built from the observed cluster has exactly the six keys \<^verbatim>\<open>endpoint\<close>, \<^verbatim>\<open>username\<close>,
  \<^verbatim>\<open>password\<close>, \<^verbatim>\<open>ca-certificate\<close>, \<^verbatim>\<open>client-certificate\<close> and \<^verbatim>\<open>client-key\<close>, holding
  the endpoint and the five fields of the master authentication of the cluster. The calls
  of the invocation end with the get call, the application of that secret and the update of
  the final object, in this order. When the secret is applied without error the object ends
  with Ready as its only present condition and the result is \<^verbatim>\<open>result\<close> (no requeue, no
  delay); when applying the secret fails the object ends with Failed present (reason of the
  secret step, message of the error), Ready not present, and the result asks for a requeue.
\<close>

theorem sync_running:
  assumes get: "kube_Get r request = Inr instance"
    and conn: "connect r instance = Inr client"
    and nodel: "DeletionTimestamp (ObjectMeta instance) = None"
    and fin: "HasFinalizer (ObjectMeta instance) finalizer \<or>
              kube_Update r (instance\<lparr>ObjectMeta := AddFinalizer (ObjectMeta instance) finalizer\<rparr>) = None"
    and named: "ClusterName (Status instance) \<noteq> []"
    and gets: "GetCluster client (Zone (Spec instance)) (ClusterName (Status instance)) = Inr c"
    and running: "ClusterStatus c = ClusterStateRunning"
  shows "dom (Data (connectionSecret instance c)) =
           {''endpoint'', ''username'', ''password'', ''ca-certificate'', ''client-certificate'',
            ''client-key''}
         \<and> Data (connectionSecret instance c) ''endpoint'' = Some (Endpoint c)
         \<and> Data (connectionSecret instance c) ''username'' = Some (Username (MasterAuth c))
         \<and> Data (connectionSecret instance c) ''password'' = Some (Password (MasterAuth c))
         \<and> Data (connectionSecret instance c) ''ca-certificate''
             = Some (ClusterCaCertificate (MasterAuth c))
         \<and> Data (connectionSecret instance c) ''client-certificate''
             = Some (ClientCertificate (MasterAuth c))
         \<and> Data (connectionSecret instance c) ''client-key'' = Some (ClientKey (MasterAuth c))
         \<and> (\<exists>i' pre. obj (Reconcile r request) = Some i'
               \<and> err (Reconcile r request) = kube_Update r i'
               \<and> (case ApplySecret r (connectionSecret instance c) of
                     None \<Rightarrow>
                       present Ready (Conditions (Status i'))
                       \<and> \<not> present Creating (Conditions (Status i'))
                       \<and> \<not> present Failed (Conditions (Status i'))
                       \<and> res (Reconcile r request) = result
                       \<and> \<not> Requeue (res (Reconcile r request))
                       \<and> RequeueAfter (res (Reconcile r request)) = 0
                   | Some e \<Rightarrow>
                       present Failed (Conditions (Status i'))
                       \<and> \<not> present Ready (Conditions (Status i'))
                       \<and> Conditions (Status i') Failed
                           = Some \<lparr>CStatus = True, Reason = errorClusterConnectionSecret,
                                   Message = Error_msg e\<rparr>
                       \<and> res (Reconcile r request) = resultRequeue
                       \<and> Requeue (res (Reconcile r request)))
               \<and> trace (Reconcile r request)
                   = pre @ [GetClusterCall (Zone (Spec instance)) (ClusterName (Status instance)),
                            ApplySecretCall (connectionSecret instance c), UpdateCall i'])"
proof (cases "HasFinalizer (ObjectMeta instance) finalizer")
  case True
  with assms show ?thesis
    by (simp add: connectionSecret_keys connectionSecret_values Reconcile_def create_or_sync_def
        Reconciler_sync_def Let_def result_def resultRequeue_def split: option.splits)
next
  case False
  with assms show ?thesis
    by (simp add: connectionSecret_keys connectionSecret_values Reconcile_def create_or_sync_def
        Reconciler_sync_def Let_def result_def resultRequeue_def split: option.splits)
qed

text \<open>
  The statement on \<open>provisioning_record\<close> once the external cluster runs: with a secret that
  is applied, and with a secret whose application is refused.
\<close>

theorem sync_running_witness:
  "(\<exists>i'. obj (Reconcile (example_reconciler provisioning_record None None
                   (Inr (example_client None (Inr (example_cloud ''RUNNING'')) None)))
                 (''default'', ''demo'')) = Some i'
       \<and> present Ready (Conditions (Status i'))
       \<and> \<not> present Creating (Conditions (Status i')))
   \<and> (\<exists>i'. obj (Reconcile (example_reconciler provisioning_record None (Some (Error Other ''forbidden''))
                   (Inr (example_client None (Inr (example_cloud ''RUNNING'')) None)))
                 (''default'', ''demo'')) = Some i'
       \<and> present Failed (Conditions (Status i'))
       \<and> \<not> present Ready (Conditions (Status i')))
   \<and> Data (connectionSecret provisioning_record (example_cloud ''RUNNING'')) ''endpoint''
       = Some ''10.0.0.1''"
  using sync_running
    [of "example_reconciler provisioning_record None None
           (Inr (example_client None (Inr (example_cloud ''RUNNING'')) None))"
        "(''default'', ''demo'')" provisioning_record
        "example_client None (Inr (example_cloud ''RUNNING'')) None" "example_cloud ''RUNNING''"]
    sync_running
    [of "example_reconciler provisioning_record None (Some (Error Other ''forbidden''))
           (Inr (example_client None (Inr (example_cloud ''RUNNING'')) None))"
        "(''default'', ''demo'')" provisioning_record
        "example_client None (Inr (example_cloud ''RUNNING'')) None" "example_cloud ''RUNNING''"]
  by (auto simp add: example_defs HasFinalizer_def ClusterStateRunning_def)

subsection \<open>The delete branch\<close>



text \<open>
  C2, as the code has it. With the reclaim policy Delete the delete branch does not look at
  the kind of the error of the delete call. When the call returns no error, the object ends
  without the finalizer of the controller and without Failed, and the result is
  \<^verbatim>\<open>result\<close>. When the call returns an error, whatever its kind (not-found included), the
  branch ends in \<^verbatim>\<open>fail\<close>: the finalizers stay as they were, Failed is present with the
  reason of the delete step and the message of the error, and the result asks for a requeue.
\<close>

theorem delete_error_handling:
  assumes policy: "ReclaimPolicy (Spec instance) = ReclaimDelete"
  shows "case DeleteCluster client (Zone (Spec instance)) (ClusterName (Status instance)) of
           None \<Rightarrow>
             finalizer \<notin> set (Finalizers (ObjectMeta (obj (Reconciler_delete r instance client))))
             \<and> \<not> present Failed (Conditions (Status (obj (Reconciler_delete r instance client))))
             \<and> res (Reconciler_delete r instance client) = result
             \<and> err (Reconciler_delete r instance client)
                 = kube_Update r (obj (Reconciler_delete r instance client))
         | Some e \<Rightarrow>
             Finalizers (ObjectMeta (obj (Reconciler_delete r instance client)))
               = Finalizers (ObjectMeta instance)
             \<and> present Failed (Conditions (Status (obj (Reconciler_delete r instance client))))
             \<and> Conditions (Status (obj (Reconciler_delete r instance client))) Failed
                 = Some \<lparr>CStatus = True, Reason = errorDeletingCluster, Message = Error_msg e\<rparr>
             \<and> res (Reconciler_delete r instance client) = resultRequeue"
  using assms by (auto simp add: Reconciler_delete_def Let_def split: option.splits)

text \<open>
  The statement on \<open>gone_record\<close>: with a delete call that succeeds, and with the delete
  call of \<open>gone_client\<close>, which fails.
\<close>

theorem delete_error_handling_witness:
  "finalizer \<notin> set (Finalizers (ObjectMeta
       (obj (Reconciler_delete gone_reconciler gone_record provisioning_client))))
   \<and> res (Reconciler_delete gone_reconciler gone_record provisioning_client) = result
   \<and> Finalizers (ObjectMeta (obj (Reconciler_delete gone_reconciler gone_record gone_client)))
       = Finalizers (ObjectMeta gone_record)
   \<and> res (Reconciler_delete gone_reconciler gone_record gone_client) = resultRequeue"
  using delete_error_handling [of gone_record gone_reconciler provisioning_client]
    delete_error_handling [of gone_record gone_reconciler gone_client]
  by (simp add: example_defs)

text \<open>
  C2 as stated fails: on \<open>gone_record\<close> (deletion requested, policy Delete) the delete call
  of \<open>gone_client\<close> answers with a not-found error; \<open>Reconcile\<close> runs the delete branch,
  which keeps the finalizer, sets Failed and asks for a requeue.
\<close>

theorem not_found_on_delete_fails:
  "ReclaimPolicy (Spec gone_record) = ReclaimDelete
   \<and> DeleteCluster gone_client (Zone (Spec gone_record)) (ClusterName (Status gone_record))
       = Some (Error NotFound ''no such cluster'')
   \<and> IsNotFound (Error NotFound ''no such cluster'')
   \<and> Reconcile gone_reconciler (''default'', ''demo'')
       = returned (Reconciler_delete gone_reconciler gone_record gone_client)
   \<and> finalizer \<in> set (Finalizers (ObjectMeta (obj (Reconciler_delete gone_reconciler gone_record gone_client))))
   \<and> present Failed (Conditions (Status (obj (Reconciler_delete gone_reconciler gone_record gone_client))))
   \<and> Requeue (res (Reconcile gone_reconciler (''default'', ''demo'')))"
  by (simp add: example_defs Reconcile_def Reconciler_delete_def Let_def IsNotFound_def
      resultRequeue_def)

text \<open>
  C8. The get call is made with a cluster name that is not empty, in every invocation: the
  sync branch is entered only then.
\<close>

lemma get_only_with_name:
  assumes "GetClusterCall z n \<in> set (trace (Reconcile r request))"
  shows "n \<noteq> []"
  using assms
  by (auto simp add: Reconcile_def Let_def create_or_sync_def Reconciler_create_def
      Reconciler_sync_def Reconciler_delete_def split: sum.splits option.splits if_splits)

text \<open>
  C8. The delete call has no such guard: the deletion check of \<open>Reconcile\<close> comes before
  the test of the cluster name, and \<^verbatim>\<open>_delete\<close> does not test it. On \<open>uncreated_record\<close>
  (deletion requested, policy Delete, no cluster name because no create ever succeeded) the
  invocation calls the delete operation with the empty name.
\<close>

theorem delete_called_with_empty_name:
  "DeletionTimestamp (ObjectMeta uncreated_record) \<noteq> None
   \<and> ReclaimPolicy (Spec uncreated_record) = ReclaimDelete
   \<and> ClusterName (Status uncreated_record) = []
   \<and> filter is_delete (trace (Reconcile uncreated_reconciler (''default'', ''demo'')))
       = [DeleteClusterCall ''us-west1-a'' []]"
  by (simp add: example_defs Reconcile_def Reconciler_delete_def Let_def)

text \<open>
  A deletion that goes through unsets every condition and keeps the cluster name: the
  object ends with a name and with no condition present.
\<close>

lemma delete_success_leaves_no_condition:
  assumes "ReclaimPolicy (Spec i) = ReclaimRetain \<or>
           DeleteCluster client (Zone (Spec i)) (ClusterName (Status i)) = None"
  shows "\<not> present t (Conditions (Status (obj (Reconciler_delete r i client))))
         \<and> ClusterName (Status (obj (Reconciler_delete r i client))) = ClusterName (Status i)"
  using assms by (auto simp add: Reconciler_delete_def Let_def)

subsection \<open>Errors and conditions\<close>

text \<open>
  C9, as the code has it. After the object was read: a failure of \<^verbatim>\<open>connect\<close>, of the
  delete call (policy Delete), of the create call (other than already-exists), of the get
  call and of the application of the secret each end with Failed present on the object,
  with the reason of the step and the message of the error, the object being the last
  thing handed to \<^verbatim>\<open>Update\<close> and the answer of the update being the returned error; the
  result asks for a requeue, except for a bad request on create. A failure of the update
  that follows the addition of the finalizer sets no condition: the invocation returns that
  error itself with \<^verbatim>\<open>resultRequeue\<close>, and the object is the one that was read plus the
  finalizer.
\<close>

theorem errors_become_conditions:
  assumes get: "kube_Get r request = Inr instance"
  shows "(connect r instance = Inl e \<longrightarrow>
            failed_with r (Reconcile r request) errorClusterClient e
            \<and> res (Reconcile r request) = resultRequeue)
         \<and> (connect r instance = Inr client
              \<and> DeletionTimestamp (ObjectMeta instance) \<noteq> None
              \<and> ReclaimPolicy (Spec instance) = ReclaimDelete
              \<and> DeleteCluster client (Zone (Spec instance)) (ClusterName (Status instance)) = Some e \<longrightarrow>
            failed_with r (Reconcile r request) errorDeletingCluster e
            \<and> res (Reconcile r request) = resultRequeue)
         \<and> (connect r instance = Inr client
              \<and> DeletionTimestamp (ObjectMeta instance) = None
              \<and> (HasFinalizer (ObjectMeta instance) finalizer \<or>
                  kube_Update r (instance\<lparr>ObjectMeta := AddFinalizer (ObjectMeta instance) finalizer\<rparr>) = None) \<longrightarrow>
            (ClusterName (Status instance) = []
               \<and> CreateCluster client (clusterNamePrefix @ UID (ObjectMeta instance)) (Spec instance) = Some e
               \<and> \<not> IsAlreadyExists e \<longrightarrow>
             failed_with r (Reconcile r request) errorCreatingCluster e
             \<and> res (Reconcile r request) = (if IsBadRequest e then result else resultRequeue))
            \<and> (ClusterName (Status instance) \<noteq> []
               \<and> GetCluster client (Zone (Spec instance)) (ClusterName (Status instance)) = Inl e \<longrightarrow>
             failed_with r (Reconcile r request) errorUpdatingCluster e
             \<and> res (Reconcile r request) = resultRequeue)
            \<and> (ClusterName (Status instance) \<noteq> []
               \<and> GetCluster client (Zone (Spec instance)) (ClusterName (Status instance)) = Inr c
               \<and> ClusterStatus c = ClusterStateRunning
               \<and> ApplySecret r (connectionSecret instance c) = Some e \<longrightarrow>
             failed_with r (Reconcile r request) errorClusterConnectionSecret e
             \<and> res (Reconcile r request) = resultRequeue))
         \<and> (connect r instance = Inr client
              \<and> DeletionTimestamp (ObjectMeta instance) = None
              \<and> \<not> HasFinalizer (ObjectMeta instance) finalizer
              \<and> kube_Update r (instance\<lparr>ObjectMeta := AddFinalizer (ObjectMeta instance) finalizer\<rparr>) = Some e \<longrightarrow>
            obj (Reconcile r request)
              = Some (instance\<lparr>ObjectMeta := AddFinalizer (ObjectMeta instance) finalizer\<rparr>)
            \<and> err (Reconcile r request) = Some e
            \<and> res (Reconcile r request) = resultRequeue
            \<and> trace (Reconcile r request)
                = [UpdateCall (instance\<lparr>ObjectMeta := AddFinalizer (ObjectMeta instance) finalizer\<rparr>)])"
proof (cases "HasFinalizer (ObjectMeta instance) finalizer")
  case True
  with get show ?thesis
    by (simp add: failed_with_def Reconcile_def create_or_sync_def Reconciler_create_def
        Reconciler_sync_def Reconciler_delete_def Let_def)
next
  case False
  with get show ?thesis
    by (simp add: failed_with_def Reconcile_def create_or_sync_def Reconciler_create_def
        Reconciler_sync_def Reconciler_delete_def Let_def)
qed

text \<open>
  The statement at one failure of each kind: no provider for \<open>gone_record\<close>, the failing
  delete call of \<open>gone_client\<close>, the failing create call of \<open>uncreated_client\<close> on a new
  record, the failing get call of \<open>gone_client\<close> and a refused secret on
  \<open>provisioning_record\<close>, and the refused update of \<open>conflict_reconciler\<close>.
\<close>

theorem errors_become_conditions_witness:
  "failed_with (example_reconciler gone_record None None (Inl (Error Other ''no provider'')))
      (Reconcile (example_reconciler gone_record None None (Inl (Error Other ''no provider'')))
         (''default'', ''demo''))
      errorClusterClient (Error Other ''no provider'')
   \<and> failed_with gone_reconciler (Reconcile gone_reconciler (''default'', ''demo''))
        errorDeletingCluster (Error NotFound ''no such cluster'')
   \<and> failed_with (example_reconciler new_record None None (Inr uncreated_client))
        (Reconcile (example_reconciler new_record None None (Inr uncreated_client))
           (''default'', ''demo''))
        errorCreatingCluster (Error Other ''quota exceeded'')
   \<and> failed_with (example_reconciler provisioning_record None None (Inr gone_client))
        (Reconcile (example_reconciler provisioning_record None None (Inr gone_client))
           (''default'', ''demo''))
        errorUpdatingCluster (Error NotFound ''no such cluster'')
   \<and> failed_with (example_reconciler provisioning_record None (Some (Error Other ''forbidden''))
                     (Inr (example_client None (Inr (example_cloud ''RUNNING'')) None)))
        (Reconcile (example_reconciler provisioning_record None (Some (Error Other ''forbidden''))
                      (Inr (example_client None (Inr (example_cloud ''RUNNING'')) None)))
           (''default'', ''demo''))
        errorClusterConnectionSecret (Error Other ''forbidden'')
   \<and> err (Reconcile conflict_reconciler (''default'', ''demo'')) = Some (Error Other ''conflict'')
   \<and> res (Reconcile conflict_reconciler (''default'', ''demo'')) = resultRequeue"
  using errors_become_conditions
      [where r = "example_reconciler gone_record None None (Inl (Error Other ''no provider''))"
         and request = "(''default'', ''demo'')" and ?instance = gone_record
         and e = "Error Other ''no provider''"]
    errors_become_conditions
      [where r = gone_reconciler and request = "(''default'', ''demo'')" and ?instance = gone_record
         and client = gone_client and e = "Error NotFound ''no such cluster''"]
    errors_become_conditions
      [where r = "example_reconciler new_record None None (Inr uncreated_client)"
         and request = "(''default'', ''demo'')" and ?instance = new_record
         and client = uncreated_client and e = "Error Other ''quota exceeded''"]
    errors_become_conditions
      [where r = "example_reconciler provisioning_record None None (Inr gone_client)"
         and request = "(''default'', ''demo'')" and ?instance = provisioning_record
         and client = gone_client and e = "Error NotFound ''no such cluster''"]
    errors_become_conditions
      [where r = "example_reconciler provisioning_record None (Some (Error Other ''forbidden''))
                    (Inr (example_client None (Inr (example_cloud ''RUNNING'')) None))"
         and request = "(''default'', ''demo'')" and ?instance = provisioning_record
         and client = "example_client None (Inr (example_cloud ''RUNNING'')) None"
         and c = "example_cloud ''RUNNING''" and e = "Error Other ''forbidden''"]
    errors_become_conditions
      [where r = conflict_reconciler and request = "(''default'', ''demo'')" and ?instance = new_record
         and client = provisioning_client and e = "Error Other ''conflict''"]
  by (simp add: example_defs HasFinalizer_def IsAlreadyExists_def clusterNamePrefix_def
      ClusterStateRunning_def)

text \<open>
  C9 as stated fails: on \<open>new_record\<close>, which has no finalizer and no condition, the update
  that follows the addition of the finalizer is refused; \<open>Reconcile\<close> returns the error and
  asks for a requeue, and the object has no condition present.
\<close>

theorem finalizer_persist_failure_sets_no_condition:
  "\<not> HasFinalizer (ObjectMeta new_record) finalizer
   \<and> err (Reconcile conflict_reconciler (''default'', ''demo'')) = Some (Error Other ''conflict'')
   \<and> res (Reconcile conflict_reconciler (''default'', ''demo'')) = resultRequeue
   \<and> map_option (present Failed \<circ> Conditions \<circ> Status)
        (obj (Reconcile conflict_reconciler (''default'', ''demo''))) = Some False
   \<and> map_option (present Creating \<circ> Conditions \<circ> Status)
        (obj (Reconcile conflict_reconciler (''default'', ''demo''))) = Some False
   \<and> map_option (present Ready \<circ> Conditions \<circ> Status)
        (obj (Reconcile conflict_reconciler (''default'', ''demo''))) = Some False"
  by (simp add: example_defs Reconcile_def Let_def HasFinalizer_def finalizer_def controllerName_def)

end
